theory Spec2Isabelle
  imports Main
begin

section \<open>The players table\<close>

text \<open>
  The interface \<open>Player\<close> and the table \<open>players\<close> of \<open>createTablesIfNotExists\<close>:
  \<^verbatim>\<open>id VARCHAR(36) PRIMARY KEY, name VARCHAR(32) NOT NULL,
  discord_id VARCHAR(100) NULL, link_code VARCHAR(8) NULL\<close>.
  The column \<open>id\<close> is called \<open>id_p\<close> here, since \<open>id\<close> is the identity function of HOL.
  A nullable column is an \<open>option\<close>. The table is the list of its rows, in the order in
  which a \<open>SELECT\<close> returns them.
\<close>

record player =
  id_p :: string
  name :: string
  discord_id :: "string option"
  link_code :: "string option"

text \<open>
  The three statements the handlers send. A \<open>NULL\<close> column equals no parameter.
  The columns \<open>id\<close> and \<open>discord_id\<close> hold identifiers the programs write
  themselves (a UUID, a Discord snowflake of digits), and SQL's \<open>=\<close> on them is read as
  equality of strings.

  \<^verbatim>\<open>SELECT * FROM players WHERE discord_id = ?\<close>
\<close>

definition select_by_discord_id :: "string \<Rightarrow> player list \<Rightarrow> player list" where
  "select_by_discord_id userId rows = filter (\<lambda>p. discord_id p = Some userId) rows"

text \<open>
  \<^verbatim>\<open>SELECT * FROM players WHERE link_code = ? AND discord_id IS NULL\<close>

  The parameter is text typed by the user, and what SQL's \<open>=\<close> makes of it is the
  collation of the column. The \<open>CREATE TABLE\<close> of the source names none, so the
  default of the database server decides: equality of strings under a binary collation,
  equality up to letter case (and trailing spaces) under the \<open>_ci\<close> collations that
  MariaDB installs as its default. The comparison is therefore a parameter \<open>matches\<close>
  of the lookup: \<open>matches stored submitted\<close>.
\<close>

type_synonym collation = "string \<Rightarrow> string \<Rightarrow> bool"

definition select_by_link_code :: "collation \<Rightarrow> string \<Rightarrow> player list \<Rightarrow> player list" where
  "select_by_link_code matches linkCode rows =
     filter (\<lambda>p. (case link_code p of None \<Rightarrow> False | Some c \<Rightarrow> matches c linkCode)
                  \<and> discord_id p = None) rows"

text \<open>
  Two comparisons: the binary one, and one that ignores the case of ASCII letters, as the
  \<open>_ci\<close> collations do.
\<close>

definition collation_binary :: collation where
  "collation_binary stored submitted = (stored = submitted)"

definition upper :: "char \<Rightarrow> char" where
  "upper c =
     (case map_of (zip ''abcdefghijklmnopqrstuvwxyz'' ''ABCDEFGHIJKLMNOPQRSTUVWXYZ'') c of
        None \<Rightarrow> c
      | Some C \<Rightarrow> C)"

definition collation_ci :: collation where
  "collation_ci stored submitted = (map upper stored = map upper submitted)"

text \<open>\<^verbatim>\<open>UPDATE players SET discord_id = ?, link_code = NULL WHERE id = ?\<close>\<close>

definition update_player :: "string \<Rightarrow> string \<Rightarrow> player list \<Rightarrow> player list" where
  "update_player userId playerId rows =
     map (\<lambda>p. if id_p p = playerId
               then p\<lparr>discord_id := Some userId, link_code := None\<rparr>
               else p) rows"

text \<open>The primary key: no two rows share an \<open>id\<close>.\<close>

definition primary_key :: "player list \<Rightarrow> bool" where
  "primary_key rows = distinct (map id_p rows)"



section \<open>The world around a handler\<close>

text \<open>
  What a handler reads and changes besides its own variables: the rows of the table, the
  roles that exist in the guild (\<open>guild.roles.fetch\<close> answers \<open>null\<close> for any other
  id), the roles each member holds (\<open>member.roles.cache\<close>), and a trace of the calls of
  \<open>member.roles.add\<close> (member, role), kept so that "no grant was attempted" can be
  stated.
\<close>

record world =
  players :: "player list"
  guild_roles :: "string set"
  member_roles :: "string \<Rightarrow> string set"
  grant_calls :: "(string \<times> string) list"

text \<open>
  The process and its database: \<open>this.db\<close> is non-null, the comparison the server
  applies to \<open>link_code = ?\<close>, and \<open>process.env.DISCORD_ROLE_ID\<close> (\<open>None\<close> when the
  variable is unset).
\<close>

record config =
  db_connected :: bool
  link_code_collation :: collation
  DISCORD_ROLE_ID :: "string option"

text \<open>
  The interaction: \<open>interaction.user.id\<close>, the option \<open>code\<close> (read by \<open>/link\<close>
  only) and whether \<open>interaction.guild\<close> is non-null.
\<close>

record interaction =
  user_id :: string
  option_code :: string
  in_guild :: bool

text \<open>
  Every awaited call of a collaborator may throw. Which of them throw in one run of a
  handler is a parameter of the model. A statement that throws has not changed the table,
  and a \<open>member.roles.add\<close> that throws has not added the role. (The replies themselves,
  \<open>interaction.reply\<close>, are taken to be delivered.)
\<close>

record faults =
  select_discord_throws :: bool
  select_code_throws :: bool
  update_throws :: bool
  members_fetch_throws :: bool
  roles_fetch_throws :: bool
  roles_add_throws :: bool

text \<open>
  The reply a handler sends, one constructor for each message in the source (the
  messages are Japanese; their meaning is given here). In the words of the
  specification, \<open>LinkCompleted\<close> is the outcome Linked, \<open>InvalidLinkCode\<close> is
  InvalidCode, \<open>DbConnectionError\<close> is StoreUnavailable, \<open>AlreadyHasRole\<close> is
  AlreadyCurrent, \<open>ResyncCompleted\<close> is Reconciled, and \<open>RoleConfigMissing\<close> and
  \<open>RoleNotFound\<close> are RoleUnavailable; the source has no reply of its own for
  LinkedRoleGrantFailed or GrantFailed, both end in the reply of the \<open>catch\<close>.
  \<^item> \<open>DbConnectionError\<close>: "a database connection error occurred" (\<open>this.db\<close> is null);
  \<^item> \<open>AlreadyLinked\<close>: "your account is already linked";
  \<^item> \<open>InvalidLinkCode\<close>: "invalid link code";
  \<^item> \<open>LinkCompleted n\<close>: "the link is complete" with the player's name \<open>n\<close>;
  \<^item> \<open>LinkError\<close>: "an error occurred during the link process" (the \<open>catch\<close> of \<open>/link\<close>);
  \<^item> \<open>NotLinked\<close>: "your account is not linked yet";
  \<^item> \<open>RoleConfigMissing\<close>: "the role configuration was not found";
  \<^item> \<open>RoleNotFound\<close>: "the role was not found";
  \<^item> \<open>AlreadyHasRole\<close>: "you already have this role";
  \<^item> \<open>ResyncCompleted n\<close>: "the role resync is complete" with the player's name \<open>n\<close>;
  \<^item> \<open>ResyncError\<close>: "an error occurred during the resync process" (the \<open>catch\<close> of
    \<open>/resync\<close>).
\<close>

datatype reply =
    DbConnectionError
  | AlreadyLinked
  | InvalidLinkCode
  | LinkCompleted string
  | LinkError
  | NotLinked
  | RoleConfigMissing
  | RoleNotFound
  | AlreadyHasRole
  | ResyncCompleted string
  | ResyncError

text \<open>The call \<open>member.roles.add(role)\<close>, recorded in the trace whether it throws or not.\<close>

definition roles_add :: "faults \<Rightarrow> string \<Rightarrow> string \<Rightarrow> world \<Rightarrow> bool \<times> world" where
  "roles_add f userId roleId w =
     (if roles_add_throws f
      then (False, w\<lparr>grant_calls := grant_calls w @ [(userId, roleId)]\<rparr>)
      else (True, w\<lparr>member_roles := (member_roles w)(userId := insert roleId (member_roles w userId)),
                    grant_calls := grant_calls w @ [(userId, roleId)]\<rparr>))"

section \<open>The command /link\<close>

text \<open>
  The body of the \<open>try\<close> block of \<open>handleLinkCommand\<close> (the same in both versions
  of \<open>index.ts\<close>). The result \<open>None\<close> is an exception reaching the \<open>catch\<close>;
  \<open>Some r\<close> is the reply sent. The condition \<open>guild && process.env.DISCORD_ROLE_ID\<close>
  is false for a null guild, an unset variable and an empty string.
\<close>

definition link_try :: "config \<Rightarrow> faults \<Rightarrow> interaction \<Rightarrow> world \<Rightarrow> reply option \<times> world" where
  "link_try cfg f i w =
     (if select_discord_throws f then (None, w)
      else if length (select_by_discord_id (user_id i) (players w)) > 0
      then (Some AlreadyLinked, w)
      else if select_code_throws f then (None, w)
      else case select_by_link_code (link_code_collation cfg) (option_code i) (players w) of
        [] \<Rightarrow> (Some InvalidLinkCode, w)
      | player # _ \<Rightarrow>
          if update_throws f then (None, w)
          else
            let w1 = w\<lparr>players := update_player (user_id i) (id_p player) (players w)\<rparr>
            in if \<not> in_guild i then (Some (LinkCompleted (name player)), w1)
               else case DISCORD_ROLE_ID cfg of
                 None \<Rightarrow> (Some (LinkCompleted (name player)), w1)
               | Some roleId \<Rightarrow>
                   if roleId = [] then (Some (LinkCompleted (name player)), w1)
                   else if members_fetch_throws f then (None, w1)
                   else if roles_fetch_throws f then (None, w1)
                   else if roleId \<notin> guild_roles w1 then (Some (LinkCompleted (name player)), w1)
                   else case roles_add f (user_id i) roleId w1 of
                     (False, w2) \<Rightarrow> (None, w2)
                   | (True, w2) \<Rightarrow> (Some (LinkCompleted (name player)), w2))"

definition handleLinkCommand :: "config \<Rightarrow> faults \<Rightarrow> interaction \<Rightarrow> world \<Rightarrow> reply \<times> world" where
  "handleLinkCommand cfg f i w =
     (if \<not> db_connected cfg then (DbConnectionError, w)
      else case link_try cfg f i w of
        (Some r, w') \<Rightarrow> (r, w')
      | (None, w') \<Rightarrow> (LinkError, w'))"

section \<open>The command /resync\<close>

definition resync_try :: "config \<Rightarrow> faults \<Rightarrow> interaction \<Rightarrow> world \<Rightarrow> reply option \<times> world" where
  "resync_try cfg f i w =
     (if select_discord_throws f then (None, w)
      else case select_by_discord_id (user_id i) (players w) of
        [] \<Rightarrow> (Some NotLinked, w)
      | player # _ \<Rightarrow>
          if \<not> in_guild i then (Some RoleConfigMissing, w)
          else case DISCORD_ROLE_ID cfg of
            None \<Rightarrow> (Some RoleConfigMissing, w)
          | Some roleId \<Rightarrow>
              if roleId = [] then (Some RoleConfigMissing, w)
              else if members_fetch_throws f then (None, w)
              else if roles_fetch_throws f then (None, w)
              else if roleId \<notin> guild_roles w then (Some RoleNotFound, w)
              else if roleId \<in> member_roles w (user_id i) then (Some AlreadyHasRole, w)
              else case roles_add f (user_id i) roleId w of
                (False, w1) \<Rightarrow> (None, w1)
              | (True, w1) \<Rightarrow> (Some (ResyncCompleted (name player)), w1))"

definition handleResyncCommand :: "config \<Rightarrow> faults \<Rightarrow> interaction \<Rightarrow> world \<Rightarrow> reply \<times> world" where
  "handleResyncCommand cfg f i w =
     (if \<not> db_connected cfg then (DbConnectionError, w)
      else case resync_try cfg f i w of
        (Some r, w') \<Rightarrow> (r, w')
      | (None, w') \<Rightarrow> (ResyncError, w'))"

section \<open>Sequences of commands\<close>

text \<open>
  The handlers run one after the other, each to completion: a command is one call of a
  handler with its configuration, the calls that throw in it, and its interaction.
\<close>

datatype command =
    Link config faults interaction
  | Resync config faults interaction

fun exec :: "command \<Rightarrow> world \<Rightarrow> world" where
  "exec (Link cfg f i) w = snd (handleLinkCommand cfg f i w)"
| "exec (Resync cfg f i) w = snd (handleResyncCommand cfg f i w)"

fun run :: "command list \<Rightarrow> world \<Rightarrow> world" where
  "run [] w = w"
| "run (c # cs) w = run cs (exec c w)"

section \<open>Interleaved runs of /link\<close>







section \<open>Scenarios\<close>

text \<open>The account of the scenarios, a second account issued the same code, and the worlds
  built from them.\<close>

definition steve :: player where
  "steve = \<lparr>id_p = ''a1'', name = ''Steve'', discord_id = None, link_code = Some ''ABC123''\<rparr>"

definition alex :: player where
  "alex = \<lparr>id_p = ''a2'', name = ''Alex'', discord_id = None, link_code = Some ''ABC123''\<rparr>"

definition alex_own_code :: player where
  "alex_own_code = alex\<lparr>link_code := Some ''XYZ789''\<rparr>"

definition steve_linked :: "string \<Rightarrow> player" where
  "steve_linked userId = steve\<lparr>discord_id := Some userId, link_code := None\<rparr>"

definition world_of :: "player list \<Rightarrow> world" where
  "world_of rows =
     \<lparr>players = rows, guild_roles = {''role1''}, member_roles = (\<lambda>_. {}), grant_calls = []\<rparr>"

definition with_role :: "string \<Rightarrow> string \<Rightarrow> world \<Rightarrow> world" where
  "with_role userId roleId w =
     w\<lparr>member_roles := (member_roles w)(userId := insert roleId (member_roles w userId))\<rparr>"

definition cfg0 :: config where
  "cfg0 = \<lparr>db_connected = True, link_code_collation = collation_binary,
            DISCORD_ROLE_ID = Some ''role1''\<rparr>"

definition cfg_ci :: config where
  "cfg_ci = cfg0\<lparr>link_code_collation := collation_ci\<rparr>"

definition no_faults :: faults where
  "no_faults = \<lparr>select_discord_throws = False, select_code_throws = False,
     update_throws = False, members_fetch_throws = False, roles_fetch_throws = False,
     roles_add_throws = False\<rparr>"

definition request :: "string \<Rightarrow> string \<Rightarrow> interaction" where
  "request userId linkCode = \<lparr>user_id = userId, option_code = linkCode, in_guild = True\<rparr>"

section \<open>Unfolding\<close>

lemmas scenario_defs =
  steve_def alex_def alex_own_code_def steve_linked_def world_of_def with_role_def cfg0_def
  collation_binary_def no_faults_def request_def


section \<open>Properties of /resync\<close>

lemma roles_add_players: "players (snd (roles_add f u r w)) = players w"
  by (simp add: roles_add_def)

lemma resync_try_players: "players (snd (resync_try cfg f i w)) = players w"
  by (simp add: resync_try_def roles_add_def split: list.split option.split)

text \<open>
  Claim C9. Whatever the requesting user, the world, the configuration and the calls that
  throw, and so whatever the reply, the table after \<open>handleResyncCommand\<close> is the table
  before it: the handler only reads the store.
\<close>

theorem resync_store_frame:
  "players (snd (handleResyncCommand cfg f i w)) = players w"
proof (cases "db_connected cfg")
  case False
  then show ?thesis by (simp add: handleResyncCommand_def)
next
  case True
  obtain r w' where rw: "resync_try cfg f i w = (r, w')" by (cases "resync_try cfg f i w")
  have "players w' = players w" using resync_try_players [of cfg f i w] rw by simp
  with True rw show ?thesis by (simp add: handleResyncCommand_def split: option.split)
qed


lemma select_by_discord_id_empty:
  "(select_by_discord_id u rows = []) = (\<forall>p\<in>set rows. discord_id p \<noteq> Some u)"
  by (simp add: select_by_discord_id_def filter_empty_conv)

lemma select_by_link_code_empty:
  "(select_by_link_code m c rows = []) =
     (\<forall>p\<in>set rows. \<not> ((\<exists>x. link_code p = Some x \<and> m x c) \<and> discord_id p = None))"
  by (auto simp: select_by_link_code_def filter_empty_conv split: option.splits)

text \<open>
  Claim C8. When the database is connected, the lookup does not throw and no row has \<open>discord_id\<close> equal to the
  requesting user, \<open>handleResyncCommand\<close> replies \<open>NotLinked\<close> and returns the world
  as it was: the table is unchanged, no role is held that was not, and the trace of
  \<open>member.roles.add\<close> calls has not grown.
\<close>

theorem resync_not_linked:
  assumes "db_connected cfg" and "\<not> select_discord_throws f"
    and "\<forall>p\<in>set (players w). discord_id p \<noteq> Some (user_id i)"
  shows "handleResyncCommand cfg f i w = (NotLinked, w)"
proof -
  have "select_by_discord_id (user_id i) (players w) = []"
    using assms(3) by (simp add: select_by_discord_id_empty)
  then have "resync_try cfg f i w = (Some NotLinked, w)"
    using assms(2) by (simp add: resync_try_def)
  then show ?thesis using assms(1) by (simp add: handleResyncCommand_def)
qed

theorem resync_not_linked_witness:
  "db_connected cfg0 \<and> \<not> select_discord_throws no_faults
   \<and> players (world_of [steve]) = [steve]
   \<and> discord_id steve \<noteq> Some (user_id (request ''disc#9'' []))
   \<and> handleResyncCommand cfg0 no_faults (request ''disc#9'' []) (world_of [steve])
       = (NotLinked, world_of [steve])"
proof -
  have h1: "db_connected cfg0" by (simp add: cfg0_def)
  have h2: "\<not> select_discord_throws no_faults" by (simp add: no_faults_def)
  have h3: "\<forall>p\<in>set (players (world_of [steve])). discord_id p \<noteq> Some (user_id (request ''disc#9'' []))"
    by (simp add: world_of_def steve_def request_def)
  have g1: "players (world_of [steve]) = [steve]" by (simp add: world_of_def)
  have g2: "discord_id steve \<noteq> Some (user_id (request ''disc#9'' []))"
    by (simp add: steve_def)
  from h1 h2 g1 g2 resync_not_linked [OF h1 h2 h3] show ?thesis by simp
qed

text \<open>
  Claim C5. When the database is connected, the first lookup does not throw and some row has \<open>discord_id\<close> equal to the
  requesting user, \<open>handleLinkCommand\<close> replies \<open>AlreadyLinked\<close> and returns the world
  as it was, whatever the submitted code (also one that matches another, unlinked row)
  and whichever later call would throw: the lookup by code is not reached.
\<close>

theorem link_already_linked:
  assumes "db_connected cfg" and "\<not> select_discord_throws f"
    and "p \<in> set (players w)" and "discord_id p = Some (user_id i)"
  shows "handleLinkCommand cfg f i w = (AlreadyLinked, w)"
proof -
  have "select_by_discord_id (user_id i) (players w) \<noteq> []"
    using assms(3,4) by (auto simp: select_by_discord_id_empty)
  then have "link_try cfg f i w = (Some AlreadyLinked, w)"
    using assms(2) by (simp add: link_try_def)
  then show ?thesis using assms(1) by (simp add: handleLinkCommand_def)
qed

theorem link_already_linked_witness:
  "db_connected cfg0 \<and> \<not> select_discord_throws no_faults
   \<and> steve_linked ''disc#1'' \<in> set (players (world_of [steve_linked ''disc#1'', alex]))
   \<and> discord_id (steve_linked ''disc#1'') = Some (user_id (request ''disc#1'' ''ABC123''))
   \<and> handleLinkCommand cfg0 no_faults (request ''disc#1'' ''ABC123'')
        (world_of [steve_linked ''disc#1'', alex])
       = (AlreadyLinked, world_of [steve_linked ''disc#1'', alex])"
proof -
  have h1: "db_connected cfg0" by (simp add: cfg0_def)
  have h2: "\<not> select_discord_throws no_faults" by (simp add: no_faults_def)
  have h3: "steve_linked ''disc#1'' \<in> set (players (world_of [steve_linked ''disc#1'', alex]))"
    by (simp add: world_of_def)
  have h4: "discord_id (steve_linked ''disc#1'') = Some (user_id (request ''disc#1'' ''ABC123''))"
    by (simp add: steve_linked_def request_def)
  from h1 h2 h3 h4 link_already_linked [OF h1 h2 h3 h4] show ?thesis by simp
qed

text \<open>
  Claim C6, as stated, fails on a server whose default collation ignores letter case: the
  table holds \<open>steve\<close> with the code \<open>ABC123\<close>, unlinked, and the user submits
  \<open>abc123\<close>. No row is linked to the user and no row has a \<open>link_code\<close> equal to the
  submitted string, yet the lookup returns \<open>steve\<close>, the reply is \<open>LinkCompleted\<close> and
  the row is linked. The handler passes the string on as it is; the comparison is the
  server's.
\<close>

theorem link_invalid_code_counterexample:
  "players (world_of [steve]) = [steve] \<and> discord_id steve = None
   \<and> link_code steve = Some ''ABC123'' \<and> ''ABC123'' \<noteq> ''abc123''
   \<and> fst (handleLinkCommand cfg_ci no_faults (request ''disc#1'' ''abc123'') (world_of [steve]))
       = LinkCompleted ''Steve''
   \<and> players (snd (handleLinkCommand cfg_ci no_faults (request ''disc#1'' ''abc123'')
        (world_of [steve]))) = [steve_linked ''disc#1'']
   \<and> steve_linked ''disc#1'' \<noteq> steve"
  by (simp add: scenario_defs cfg_ci_def collation_ci_def upper_def handleLinkCommand_def
      link_try_def select_by_discord_id_def select_by_link_code_def update_player_def
      roles_add_def)

text \<open>
  Claim C6, amended. When the database is connected, neither lookup throws, no row has
  \<open>discord_id\<close> equal to the requesting user, and no row with a null \<open>discord_id\<close> has a
  \<open>link_code\<close> that the server's comparison matches with the submitted code (the string
  as submitted: the handler does not normalise it), then \<open>handleLinkCommand\<close> replies
  \<open>InvalidLinkCode\<close> and returns the world as it was. This holds for every comparison;
  under a binary collation the comparison is equality of strings. A row whose code was
  consumed has a null \<open>link_code\<close> and a non-null \<open>discord_id\<close>, so it is not a match.
\<close>

theorem link_invalid_code:
  assumes "db_connected cfg" and "\<not> select_discord_throws f" and "\<not> select_code_throws f"
    and "\<forall>p\<in>set (players w). discord_id p \<noteq> Some (user_id i)"
    and "\<forall>p\<in>set (players w).
           \<not> ((\<exists>c. link_code p = Some c \<and> link_code_collation cfg c (option_code i))
               \<and> discord_id p = None)"
  shows "handleLinkCommand cfg f i w = (InvalidLinkCode, w)"
proof -
  have e1: "select_by_discord_id (user_id i) (players w) = []"
    using assms(4) by (simp add: select_by_discord_id_empty)
  have e2: "select_by_link_code (link_code_collation cfg) (option_code i) (players w) = []"
    using assms(5) unfolding select_by_link_code_empty .
  have "link_try cfg f i w = (Some InvalidLinkCode, w)"
    using assms(2,3) e1 e2 by (simp add: link_try_def)
  then show ?thesis using assms(1) by (simp add: handleLinkCommand_def)
qed

theorem link_invalid_code_witness:
  "db_connected cfg0 \<and> \<not> select_discord_throws no_faults \<and> \<not> select_code_throws no_faults
   \<and> players (world_of [steve_linked ''disc#1'']) = [steve_linked ''disc#1'']
   \<and> discord_id (steve_linked ''disc#1'') = Some ''disc#1''
   \<and> link_code (steve_linked ''disc#1'') = None
   \<and> user_id (request ''disc#2'' ''ABC123'') = ''disc#2''
   \<and> handleLinkCommand cfg0 no_faults (request ''disc#2'' ''ABC123'')
        (world_of [steve_linked ''disc#1''])
       = (InvalidLinkCode, world_of [steve_linked ''disc#1''])
   \<and> db_connected cfg_ci
   \<and> players (world_of [steve]) = [steve] \<and> discord_id steve = None
   \<and> link_code steve = Some ''ABC123''
   \<and> \<not> link_code_collation cfg_ci ''ABC123'' (option_code (request ''disc#2'' ''ZZZZZZ''))
   \<and> handleLinkCommand cfg_ci no_faults (request ''disc#2'' ''ZZZZZZ'') (world_of [steve])
       = (InvalidLinkCode, world_of [steve])"
proof -
  let ?w = "world_of [steve_linked ''disc#1'']"
  let ?i = "request ''disc#2'' ''ABC123''"
  let ?v = "world_of [steve]"
  let ?j = "request ''disc#2'' ''ZZZZZZ''"
  have h1: "db_connected cfg0" by (simp add: cfg0_def)
  have h2: "\<not> select_discord_throws no_faults" by (simp add: no_faults_def)
  have h3: "\<not> select_code_throws no_faults" by (simp add: no_faults_def)
  have h4: "\<forall>p\<in>set (players ?w). discord_id p \<noteq> Some (user_id ?i)"
    by (simp add: world_of_def steve_linked_def request_def)
  have h5: "\<forall>p\<in>set (players ?w).
         \<not> ((\<exists>c. link_code p = Some c \<and> link_code_collation cfg0 c (option_code ?i))
             \<and> discord_id p = None)"
    by (simp add: world_of_def steve_linked_def request_def)
  have g1: "players ?w = [steve_linked ''disc#1'']" by (simp add: world_of_def)
  have g2: "discord_id (steve_linked ''disc#1'') = Some ''disc#1''"
    by (simp add: steve_linked_def)
  have g3: "link_code (steve_linked ''disc#1'') = None" by (simp add: steve_linked_def)
  have g4: "user_id ?i = ''disc#2''" by (simp add: request_def)
  have k1: "db_connected cfg_ci" by (simp add: cfg_ci_def cfg0_def)
  have k4: "\<forall>p\<in>set (players ?v). discord_id p \<noteq> Some (user_id ?j)"
    by (simp add: world_of_def steve_def)
  have m1: "players ?v = [steve]" by (simp add: world_of_def)
  have m2: "discord_id steve = None" by (simp add: steve_def)
  have m3: "link_code steve = Some ''ABC123''" by (simp add: steve_def)
  have m4: "\<not> link_code_collation cfg_ci ''ABC123'' (option_code ?j)"
    by (simp add: cfg_ci_def collation_ci_def upper_def request_def)
  have k5: "\<forall>p\<in>set (players ?v).
         \<not> ((\<exists>c. link_code p = Some c \<and> link_code_collation cfg_ci c (option_code ?j))
             \<and> discord_id p = None)"
    using m1 m3 m4 by simp
  note c1 = link_invalid_code [OF h1 h2 h3 h4 h5]
  note c2 = link_invalid_code [OF k1 h2 h3 k4 k5]
  from h1 h2 h3 g1 g2 g3 g4 c1 k1 m1 m2 m3 m4 c2 show ?thesis by blast
qed


section \<open>The role step\<close>

lemma resync_linked_resolvable:
  assumes "db_connected cfg" and "\<not> select_discord_throws f"
    and "\<not> members_fetch_throws f" and "\<not> roles_fetch_throws f"
    and "p \<in> set (players w)" and "discord_id p = Some (user_id i)"
    and "in_guild i" and "DISCORD_ROLE_ID cfg = Some roleId" and "roleId \<noteq> []"
    and "roleId \<in> guild_roles w"
  shows "handleResyncCommand cfg f i w =
     (if roleId \<in> member_roles w (user_id i) then (AlreadyHasRole, w)
      else case roles_add f (user_id i) roleId w of
             (False, w1) \<Rightarrow> (ResyncError, w1)
           | (True, w1) \<Rightarrow>
               (ResyncCompleted (name (hd (select_by_discord_id (user_id i) (players w)))), w1))"
proof -
  have "select_by_discord_id (user_id i) (players w) \<noteq> []"
    using assms(5,6) by (auto simp: select_by_discord_id_empty)
  then obtain q qs where "select_by_discord_id (user_id i) (players w) = q # qs"
    by (cases "select_by_discord_id (user_id i) (players w)") auto
  then show ?thesis
    using assms by (simp add: handleResyncCommand_def resync_try_def split: prod.split bool.split)
qed

text \<open>
  Claim C7. Let the requesting user be linked in the table and the role be resolvable
  (the command comes from a guild, \<open>DISCORD_ROLE_ID\<close> is a non-empty id, the guild has
  a role with that id), with a connected database and lookups and fetches that do not
  throw. If the member already holds the role, \<open>handleResyncCommand\<close> replies
  \<open>AlreadyHasRole\<close> and returns the world as it was, so \<open>member.roles.add\<close> is not
  called. And when \<open>handleResyncCommand\<close> does not end in its error reply, calling it
  again on the world it returns replies \<open>AlreadyHasRole\<close> and changes nothing.
\<close>

theorem resync_idempotent:
  assumes "db_connected cfg"
    and "\<not> select_discord_throws f" and "\<not> members_fetch_throws f" and "\<not> roles_fetch_throws f"
    and "\<not> select_discord_throws f'" and "\<not> members_fetch_throws f'" and "\<not> roles_fetch_throws f'"
    and "p \<in> set (players w)" and "discord_id p = Some (user_id i)"
    and "in_guild i" and "DISCORD_ROLE_ID cfg = Some roleId" and "roleId \<noteq> []"
    and "roleId \<in> guild_roles w"
  shows "(roleId \<in> member_roles w (user_id i) \<longrightarrow>
            handleResyncCommand cfg f i w = (AlreadyHasRole, w))
       \<and> (fst (handleResyncCommand cfg f i w) \<noteq> ResyncError \<longrightarrow>
            handleResyncCommand cfg f' i (snd (handleResyncCommand cfg f i w))
              = (AlreadyHasRole, snd (handleResyncCommand cfg f i w)))"
proof -
  let ?first = "handleResyncCommand cfg f i w"
  have first: "?first =
     (if roleId \<in> member_roles w (user_id i) then (AlreadyHasRole, w)
      else case roles_add f (user_id i) roleId w of
             (False, w1) \<Rightarrow> (ResyncError, w1)
           | (True, w1) \<Rightarrow>
               (ResyncCompleted (name (hd (select_by_discord_id (user_id i) (players w)))), w1))"
    using assms(1,2,3,4,8,9,10,11,12,13) by (rule resync_linked_resolvable)
  have held: "roleId \<in> member_roles w (user_id i) \<longrightarrow> ?first = (AlreadyHasRole, w)"
    using first by simp
  have again: "handleResyncCommand cfg f' i (snd ?first) = (AlreadyHasRole, snd ?first)"
    if ok: "fst ?first \<noteq> ResyncError"
  proof -
    have pl: "players (snd ?first) = players w"
      using first by (simp add: roles_add_def)
    have gr: "guild_roles (snd ?first) = guild_roles w"
      using first by (simp add: roles_add_def)
    have has: "roleId \<in> member_roles (snd ?first) (user_id i)"
      using first ok by (simp add: roles_add_def split: if_splits)
    have "handleResyncCommand cfg f' i (snd ?first) =
       (if roleId \<in> member_roles (snd ?first) (user_id i) then (AlreadyHasRole, snd ?first)
        else case roles_add f' (user_id i) roleId (snd ?first) of
               (False, w1) \<Rightarrow> (ResyncError, w1)
             | (True, w1) \<Rightarrow>
                 (ResyncCompleted
                    (name (hd (select_by_discord_id (user_id i) (players (snd ?first))))), w1))"
      using assms(1,5,6,7) _ assms(9,10,11,12)
    proof (rule resync_linked_resolvable)
      show "p \<in> set (players (snd ?first))" using pl assms(8) by simp
      show "roleId \<in> guild_roles (snd ?first)" using gr assms(13) by simp
    qed
    with has show ?thesis by simp
  qed
  from held again show ?thesis by blast
qed


theorem resync_idempotent_witness:
  "db_connected cfg0
   \<and> \<not> select_discord_throws no_faults \<and> \<not> members_fetch_throws no_faults
   \<and> \<not> roles_fetch_throws no_faults
   \<and> steve_linked ''disc#1'' \<in> set (players (world_of [steve_linked ''disc#1'']))
   \<and> discord_id (steve_linked ''disc#1'') = Some (user_id (request ''disc#1'' []))
   \<and> in_guild (request ''disc#1'' []) \<and> DISCORD_ROLE_ID cfg0 = Some ''role1''
   \<and> ''role1'' \<noteq> [] \<and> ''role1'' \<in> guild_roles (world_of [steve_linked ''disc#1''])
   \<and> handleResyncCommand cfg0 no_faults (request ''disc#1'' [])
        (with_role ''disc#1'' ''role1'' (world_of [steve_linked ''disc#1'']))
       = (AlreadyHasRole, with_role ''disc#1'' ''role1'' (world_of [steve_linked ''disc#1'']))
   \<and> fst (handleResyncCommand cfg0 no_faults (request ''disc#1'' [])
        (world_of [steve_linked ''disc#1''])) = ResyncCompleted ''Steve''
   \<and> handleResyncCommand cfg0 no_faults (request ''disc#1'' [])
        (snd (handleResyncCommand cfg0 no_faults (request ''disc#1'' [])
           (world_of [steve_linked ''disc#1''])))
       = (AlreadyHasRole, snd (handleResyncCommand cfg0 no_faults (request ''disc#1'' [])
           (world_of [steve_linked ''disc#1''])))"
proof -
  let ?w = "world_of [steve_linked ''disc#1'']"
  let ?wr = "with_role ''disc#1'' ''role1'' ?w"
  let ?i = "request ''disc#1'' []"
  have h1: "db_connected cfg0" by (simp add: cfg0_def)
  have h2: "\<not> select_discord_throws no_faults" by (simp add: no_faults_def)
  have h3: "\<not> members_fetch_throws no_faults" by (simp add: no_faults_def)
  have h4: "\<not> roles_fetch_throws no_faults" by (simp add: no_faults_def)
  have h5: "steve_linked ''disc#1'' \<in> set (players ?w)" by (simp add: world_of_def)
  have h5r: "steve_linked ''disc#1'' \<in> set (players ?wr)"
    by (simp add: world_of_def with_role_def)
  have h6: "discord_id (steve_linked ''disc#1'') = Some (user_id ?i)"
    by (simp add: steve_linked_def request_def)
  have h7: "in_guild ?i" by (simp add: request_def)
  have h8: "DISCORD_ROLE_ID cfg0 = Some ''role1''" by (simp add: cfg0_def)
  have h9: "''role1'' \<noteq> []" by simp
  have h10: "''role1'' \<in> guild_roles ?w" by (simp add: world_of_def)
  have h10r: "''role1'' \<in> guild_roles ?wr" by (simp add: world_of_def with_role_def)
  have held: "''role1'' \<in> member_roles ?wr (user_id ?i)"
    by (simp add: with_role_def request_def)
  have first: "fst (handleResyncCommand cfg0 no_faults ?i ?w) = ResyncCompleted ''Steve''"
    by (simp add: scenario_defs handleResyncCommand_def resync_try_def
        select_by_discord_id_def roles_add_def)
  have c1: "handleResyncCommand cfg0 no_faults ?i ?wr = (AlreadyHasRole, ?wr)"
    using resync_idempotent [OF h1 h2 h3 h4 h2 h3 h4 h5r h6 h7 h8 h9 h10r] held by blast
  have c2: "handleResyncCommand cfg0 no_faults ?i (snd (handleResyncCommand cfg0 no_faults ?i ?w))
      = (AlreadyHasRole, snd (handleResyncCommand cfg0 no_faults ?i ?w))"
    using resync_idempotent [OF h1 h2 h3 h4 h2 h3 h4 h5 h6 h7 h8 h9 h10] first by simp
  from h1 h2 h3 h4 h5 h6 h7 h8 h9 h10 c1 first c2 show ?thesis by blast
qed


section \<open>A link that reaches the update\<close>

text \<open>
  What \<open>handleLinkCommand\<close> does once both lookups have passed and the update has not
  thrown: \<open>r\<close> is the first row the lookup by code returns.
\<close>

lemma link_found:
  assumes "db_connected cfg"
    and "\<not> select_discord_throws f" and "\<not> select_code_throws f" and "\<not> update_throws f"
    and "\<forall>q\<in>set (players w). discord_id q \<noteq> Some (user_id i)"
    and "select_by_link_code (link_code_collation cfg) (option_code i) (players w) = r # rest"
  shows "handleLinkCommand cfg f i w =
     (let w1 = w\<lparr>players := update_player (user_id i) (id_p r) (players w)\<rparr>
      in if \<not> in_guild i then (LinkCompleted (name r), w1)
         else case DISCORD_ROLE_ID cfg of
           None \<Rightarrow> (LinkCompleted (name r), w1)
         | Some roleId \<Rightarrow>
             if roleId = [] then (LinkCompleted (name r), w1)
             else if members_fetch_throws f then (LinkError, w1)
             else if roles_fetch_throws f then (LinkError, w1)
             else if roleId \<notin> guild_roles w then (LinkCompleted (name r), w1)
             else case roles_add f (user_id i) roleId w1 of
               (False, w2) \<Rightarrow> (LinkError, w2)
             | (True, w2) \<Rightarrow> (LinkCompleted (name r), w2))"
proof -
  have e1: "select_by_discord_id (user_id i) (players w) = []"
    using assms(5) by (simp add: select_by_discord_id_empty)
  show ?thesis
    using assms(1,2,3,4,6) e1
    by (simp add: handleLinkCommand_def link_try_def Let_def
        split: option.split prod.split bool.split)
qed

lemma select_by_link_code_member:
  "select_by_link_code m c rows = r # rest \<Longrightarrow>
     r \<in> set rows \<and> (\<exists>x. link_code r = Some x \<and> m x c) \<and> discord_id r = None"
proof -
  assume "select_by_link_code m c rows = r # rest"
  then have "r \<in> set (filter (\<lambda>p. (case link_code p of None \<Rightarrow> False | Some x \<Rightarrow> m x c)
                                    \<and> discord_id p = None) rows)"
    by (simp add: select_by_link_code_def)
  then show ?thesis by (auto split: option.splits)
qed

lemma update_player_one_row:
  assumes "primary_key rows" and "r \<in> set rows"
  shows "update_player u (id_p r) rows =
     map (\<lambda>q. if q = r then r\<lparr>discord_id := Some u, link_code := None\<rparr> else q) rows"
proof -
  have inj: "inj_on id_p (set rows)"
    using assms(1) by (simp add: primary_key_def distinct_map)
  have "\<And>q. q \<in> set rows \<Longrightarrow> (id_p q = id_p r) = (q = r)"
    using inj assms(2) by (auto dest: inj_onD)
  then show ?thesis
    unfolding update_player_def by (intro map_cong) auto
qed

text \<open>
  Claim C10. Let \<open>handleLinkCommand\<close> pass both lookups and the update, with \<open>r\<close> the
  row found. If the interaction has no guild, or \<open>DISCORD_ROLE_ID\<close> is unset or
  empty, or the fetch of the configured role answers \<open>null\<close> (the guild has no role of
  that id; the two fetches do not throw), then the reply is \<open>LinkCompleted\<close>, the
  update is in the table, and the rest of the world is as it was: no role was added and
  \<open>member.roles.add\<close> was not called. The reply is the one of a link with its role
  granted.
\<close>

theorem link_role_step_skipped:
  assumes "db_connected cfg"
    and "\<not> select_discord_throws f" and "\<not> select_code_throws f" and "\<not> update_throws f"
    and "\<forall>q\<in>set (players w). discord_id q \<noteq> Some (user_id i)"
    and "select_by_link_code (link_code_collation cfg) (option_code i) (players w) = r # rest"
    and "\<not> in_guild i \<or> DISCORD_ROLE_ID cfg = None \<or> DISCORD_ROLE_ID cfg = Some []
         \<or> (\<exists>roleId. DISCORD_ROLE_ID cfg = Some roleId \<and> roleId \<notin> guild_roles w
               \<and> \<not> members_fetch_throws f \<and> \<not> roles_fetch_throws f)"
  shows "handleLinkCommand cfg f i w =
     (LinkCompleted (name r), w\<lparr>players := update_player (user_id i) (id_p r) (players w)\<rparr>)"
  using assms(7) unfolding link_found [OF assms(1-6)]
  by (auto simp: Let_def split: option.split)

theorem link_role_step_skipped_witness:
  "db_connected cfg0 \<and> \<not> select_discord_throws no_faults \<and> \<not> select_code_throws no_faults
   \<and> \<not> update_throws no_faults
   \<and> players (world_of [steve]) = [steve] \<and> discord_id steve = None
   \<and> select_by_link_code (link_code_collation cfg0) (option_code ((request ''disc#1'' ''ABC123'')\<lparr>in_guild := False\<rparr>))
        (players (world_of [steve])) = steve # []
   \<and> \<not> in_guild ((request ''disc#1'' ''ABC123'')\<lparr>in_guild := False\<rparr>)
   \<and> handleLinkCommand cfg0 no_faults ((request ''disc#1'' ''ABC123'')\<lparr>in_guild := False\<rparr>)
        (world_of [steve])
       = (LinkCompleted ''Steve'', world_of [steve_linked ''disc#1''])
   \<and> DISCORD_ROLE_ID (cfg0\<lparr>DISCORD_ROLE_ID := Some ''role9''\<rparr>) = Some ''role9''
   \<and> ''role9'' \<notin> guild_roles (world_of [steve])
   \<and> handleLinkCommand (cfg0\<lparr>DISCORD_ROLE_ID := Some ''role9''\<rparr>) no_faults
        (request ''disc#1'' ''ABC123'') (world_of [steve])
       = (LinkCompleted ''Steve'', world_of [steve_linked ''disc#1''])
   \<and> handleLinkCommand (cfg0\<lparr>DISCORD_ROLE_ID := None\<rparr>) no_faults
        (request ''disc#1'' ''ABC123'') (world_of [steve])
       = (LinkCompleted ''Steve'', world_of [steve_linked ''disc#1''])"
proof -
  let ?i = "(request ''disc#1'' ''ABC123'')\<lparr>in_guild := False\<rparr>"
  let ?w = "world_of [steve]"
  have h1: "db_connected cfg0" by (simp add: cfg0_def)
  have h2: "\<not> select_discord_throws no_faults" by (simp add: no_faults_def)
  have h3: "\<not> select_code_throws no_faults" by (simp add: no_faults_def)
  have h4: "\<not> update_throws no_faults" by (simp add: no_faults_def)
  have h5: "\<forall>q\<in>set (players ?w). discord_id q \<noteq> Some (user_id ?i)"
    by (simp add: world_of_def steve_def)
  have h6: "select_by_link_code (link_code_collation cfg0) (option_code ?i) (players ?w) = steve # []"
    by (simp add: select_by_link_code_def world_of_def steve_def request_def cfg0_def
        collation_binary_def)
  have h7: "\<not> in_guild ?i" by simp
  have h7': "\<not> in_guild ?i \<or> DISCORD_ROLE_ID cfg0 = None \<or> DISCORD_ROLE_ID cfg0 = Some []
         \<or> (\<exists>roleId. DISCORD_ROLE_ID cfg0 = Some roleId \<and> roleId \<notin> guild_roles ?w
               \<and> \<not> members_fetch_throws no_faults \<and> \<not> roles_fetch_throws no_faults)"
    using h7 by blast
  have e: "?w\<lparr>players := update_player (user_id ?i) (id_p steve) (players ?w)\<rparr>
      = world_of [steve_linked ''disc#1'']"
    by (simp add: world_of_def update_player_def steve_linked_def request_def)
  have n: "name steve = ''Steve''" by (simp add: steve_def)
  have c: "handleLinkCommand cfg0 no_faults ?i ?w = (LinkCompleted ''Steve'', world_of [steve_linked ''disc#1''])"
    using link_role_step_skipped [OF h1 h2 h3 h4 h5 h6 h7'] e n by simp
  let ?j = "request ''disc#1'' ''ABC123''"
  let ?cfg9 = "cfg0\<lparr>DISCORD_ROLE_ID := Some ''role9''\<rparr>"
  let ?cfgN = "cfg0\<lparr>DISCORD_ROLE_ID := None\<rparr>"
  have j1: "db_connected ?cfg9" and j1': "db_connected ?cfgN" by (simp_all add: cfg0_def)
  have j5: "\<forall>q\<in>set (players ?w). discord_id q \<noteq> Some (user_id ?j)"
    by (simp add: world_of_def steve_def)
  have j6: "select_by_link_code (link_code_collation ?cfg9) (option_code ?j) (players ?w)
      = steve # []"
    by (simp add: select_by_link_code_def world_of_def steve_def request_def cfg0_def
        collation_binary_def)
  have j6': "select_by_link_code (link_code_collation ?cfgN) (option_code ?j) (players ?w)
      = steve # []"
    by (simp add: select_by_link_code_def world_of_def steve_def request_def cfg0_def
        collation_binary_def)
  have r9: "DISCORD_ROLE_ID ?cfg9 = Some ''role9''" by simp
  have r9': "''role9'' \<notin> guild_roles ?w" by (simp add: world_of_def)
  have f5: "\<not> members_fetch_throws no_faults" and f6: "\<not> roles_fetch_throws no_faults"
    by (simp_all add: no_faults_def)
  have j7: "\<not> in_guild ?j \<or> DISCORD_ROLE_ID ?cfg9 = None \<or> DISCORD_ROLE_ID ?cfg9 = Some []
         \<or> (\<exists>roleId. DISCORD_ROLE_ID ?cfg9 = Some roleId \<and> roleId \<notin> guild_roles ?w
               \<and> \<not> members_fetch_throws no_faults \<and> \<not> roles_fetch_throws no_faults)"
    using r9 r9' f5 f6 by blast
  have j7': "\<not> in_guild ?j \<or> DISCORD_ROLE_ID ?cfgN = None \<or> DISCORD_ROLE_ID ?cfgN = Some []
         \<or> (\<exists>roleId. DISCORD_ROLE_ID ?cfgN = Some roleId \<and> roleId \<notin> guild_roles ?w
               \<and> \<not> members_fetch_throws no_faults \<and> \<not> roles_fetch_throws no_faults)"
    by simp
  have e': "?w\<lparr>players := update_player (user_id ?j) (id_p steve) (players ?w)\<rparr>
      = world_of [steve_linked ''disc#1'']"
    by (simp add: world_of_def update_player_def steve_linked_def request_def)
  have c9: "handleLinkCommand ?cfg9 no_faults ?j ?w
      = (LinkCompleted ''Steve'', world_of [steve_linked ''disc#1''])"
    using link_role_step_skipped [OF j1 h2 h3 h4 j5 j6 j7] e' n by simp
  have cN: "handleLinkCommand ?cfgN no_faults ?j ?w
      = (LinkCompleted ''Steve'', world_of [steve_linked ''disc#1''])"
    using link_role_step_skipped [OF j1' h2 h3 h4 j5 j6' j7'] e' n by simp
  have g1: "players (world_of [steve]) = [steve]" by (simp add: world_of_def)
  have g2: "discord_id steve = None" by (simp add: steve_def)
  from h1 h2 h3 h4 g1 g2 h6 h7 c r9 r9' c9 cN show ?thesis by blast
qed


section \<open>The successful link\<close>

text \<open>
  Claim C2, as stated, fails where two unlinked rows carry the submitted code: the
  handler takes \<open>playerRows[0]\<close> and updates that row alone. Here \<open>steve\<close> and
  \<open>alex\<close> both carry \<open>ABC123\<close>; \<open>alex\<close> is a row with the submitted code and a
  null \<open>discord_id\<close>, no row is linked to the requester, the reply is
  \<open>LinkCompleted\<close>, and afterwards \<open>alex\<close> is as before, not linked to the requester.
\<close>

theorem link_success_counterexample:
  "players (world_of [steve, alex]) = [steve, alex]
   \<and> link_code alex = Some ''ABC123'' \<and> discord_id alex = None \<and> discord_id steve = None
   \<and> fst (handleLinkCommand cfg0 no_faults (request ''disc#1'' ''ABC123'') (world_of [steve, alex]))
       = LinkCompleted ''Steve''
   \<and> players (snd (handleLinkCommand cfg0 no_faults (request ''disc#1'' ''ABC123'')
        (world_of [steve, alex]))) = [steve_linked ''disc#1'', alex]
   \<and> discord_id alex \<noteq> Some ''disc#1'' \<and> link_code alex \<noteq> None"
  by (simp add: scenario_defs handleLinkCommand_def link_try_def select_by_discord_id_def
      select_by_link_code_def update_player_def roles_add_def)

text \<open>
  Claim C2, amended. Let the database be connected and no call throw, let \<open>id\<close> be a
  key of the table, let no row be linked to the requesting user, and let \<open>r\<close> be the
  first row the lookup by code returns (the first row with a null \<open>discord_id\<close>
  whose \<open>link_code\<close> the server's comparison matches with the submitted code). Then \<open>handleLinkCommand\<close> replies
  \<open>LinkCompleted\<close> with the name of \<open>r\<close>, and the table afterwards is the table
  before with \<open>r\<close> replaced by \<open>r\<close> with \<open>discord_id\<close> the requesting user and
  \<open>link_code\<close> null, both set by the one \<open>UPDATE\<close>; every other row is as it was, and
  so are the \<open>id\<close> and the \<open>name\<close> of \<open>r\<close>.
\<close>

theorem link_success:
  assumes "db_connected cfg"
    and "\<not> select_discord_throws f" and "\<not> select_code_throws f" and "\<not> update_throws f"
    and "\<not> members_fetch_throws f" and "\<not> roles_fetch_throws f" and "\<not> roles_add_throws f"
    and "primary_key (players w)"
    and "\<forall>q\<in>set (players w). discord_id q \<noteq> Some (user_id i)"
    and "select_by_link_code (link_code_collation cfg) (option_code i) (players w) = r # rest"
  shows "fst (handleLinkCommand cfg f i w) = LinkCompleted (name r)
       \<and> players (snd (handleLinkCommand cfg f i w)) =
           map (\<lambda>q. if q = r then r\<lparr>discord_id := Some (user_id i), link_code := None\<rparr> else q)
             (players w)
       \<and> id_p (r\<lparr>discord_id := Some (user_id i), link_code := None\<rparr>) = id_p r
       \<and> name (r\<lparr>discord_id := Some (user_id i), link_code := None\<rparr>) = name r"
proof -
  have mem: "r \<in> set (players w)"
    using select_by_link_code_member [OF assms(10)] by simp
  have upd: "update_player (user_id i) (id_p r) (players w) =
      map (\<lambda>q. if q = r then r\<lparr>discord_id := Some (user_id i), link_code := None\<rparr> else q)
        (players w)"
    using assms(8) mem by (rule update_player_one_row)
  have run: "fst (handleLinkCommand cfg f i w) = LinkCompleted (name r)
      \<and> players (snd (handleLinkCommand cfg f i w))
          = update_player (user_id i) (id_p r) (players w)"
    unfolding link_found [OF assms(1,2,3,4,9,10)]
    using assms(5,6,7) by (simp add: Let_def roles_add_def split: option.split)
  from run upd show ?thesis by simp
qed

theorem link_success_witness:
  "db_connected cfg0
   \<and> \<not> select_discord_throws no_faults \<and> \<not> select_code_throws no_faults
   \<and> \<not> update_throws no_faults \<and> \<not> members_fetch_throws no_faults
   \<and> \<not> roles_fetch_throws no_faults \<and> \<not> roles_add_throws no_faults
   \<and> primary_key (players (world_of [steve]))
   \<and> players (world_of [steve]) = [steve] \<and> discord_id steve = None
   \<and> select_by_link_code (link_code_collation cfg0) (option_code (request ''disc#1'' ''ABC123''))
        (players (world_of [steve])) = steve # []
   \<and> fst (handleLinkCommand cfg0 no_faults (request ''disc#1'' ''ABC123'') (world_of [steve]))
       = LinkCompleted ''Steve''
   \<and> players (snd (handleLinkCommand cfg0 no_faults (request ''disc#1'' ''ABC123'')
        (world_of [steve])))
       = [\<lparr>id_p = ''a1'', name = ''Steve'', discord_id = Some ''disc#1'', link_code = None\<rparr>]"
proof -
  let ?i = "request ''disc#1'' ''ABC123''"
  let ?w = "world_of [steve]"
  have h1: "db_connected cfg0" by (simp add: cfg0_def)
  have h2: "\<not> select_discord_throws no_faults" by (simp add: no_faults_def)
  have h3: "\<not> select_code_throws no_faults" by (simp add: no_faults_def)
  have h4: "\<not> update_throws no_faults" by (simp add: no_faults_def)
  have h5: "\<not> members_fetch_throws no_faults" by (simp add: no_faults_def)
  have h6: "\<not> roles_fetch_throws no_faults" by (simp add: no_faults_def)
  have h7: "\<not> roles_add_throws no_faults" by (simp add: no_faults_def)
  have h8: "primary_key (players ?w)" by (simp add: primary_key_def world_of_def)
  have h9: "\<forall>q\<in>set (players ?w). discord_id q \<noteq> Some (user_id ?i)"
    by (simp add: world_of_def steve_def)
  have h10: "select_by_link_code (link_code_collation cfg0) (option_code ?i) (players ?w) = steve # []"
    by (simp add: select_by_link_code_def world_of_def steve_def request_def cfg0_def
        collation_binary_def)
  have e: "map (\<lambda>q. if q = steve then steve\<lparr>discord_id := Some (user_id ?i), link_code := None\<rparr>
                     else q) (players ?w)
      = [\<lparr>id_p = ''a1'', name = ''Steve'', discord_id = Some ''disc#1'', link_code = None\<rparr>]"
    by (simp add: world_of_def steve_def request_def)
  have n: "name steve = ''Steve''" by (simp add: steve_def)
  have c: "fst (handleLinkCommand cfg0 no_faults ?i ?w) = LinkCompleted ''Steve''
      \<and> players (snd (handleLinkCommand cfg0 no_faults ?i ?w))
          = [\<lparr>id_p = ''a1'', name = ''Steve'', discord_id = Some ''disc#1'', link_code = None\<rparr>]"
    using link_success [OF h1 h2 h3 h4 h5 h6 h7 h8 h9 h10] e n by simp
  have g1: "players (world_of [steve]) = [steve]" by (simp add: world_of_def)
  have g2: "discord_id steve = None" by (simp add: steve_def)
  from h1 h2 h3 h4 h5 h6 h7 h8 g1 g2 h10 c show ?thesis by blast
qed


section \<open>A role grant that fails after the update\<close>

text \<open>
  Claim C4, as stated, fails: an exception of the role step reaches the one \<open>catch\<close> of
  \<open>handleLinkCommand\<close>, whose reply is the reply to any exception. Here
  \<open>member.roles.add\<close> throws after the update: the row is linked and the reply is
  \<open>LinkError\<close>. Where instead the first lookup throws, nothing is written and the reply
  is \<open>LinkError\<close> too, so the reply does not tell the committed link from a link that
  failed altogether.
\<close>

theorem link_role_grant_failed_counterexample:
  "handleLinkCommand cfg0 (no_faults\<lparr>roles_add_throws := True\<rparr>)
       (request ''disc#1'' ''ABC123'') (world_of [steve])
     = (LinkError, (world_of [steve_linked ''disc#1''])\<lparr>grant_calls := [(''disc#1'', ''role1'')]\<rparr>)
   \<and> handleLinkCommand cfg0 (no_faults\<lparr>select_discord_throws := True\<rparr>)
       (request ''disc#1'' ''ABC123'') (world_of [steve])
     = (LinkError, world_of [steve])
   \<and> steve_linked ''disc#1'' \<noteq> steve"
  by (simp add: scenario_defs handleLinkCommand_def link_try_def select_by_discord_id_def
      select_by_link_code_def update_player_def roles_add_def)

text \<open>
  Claim C4, amended. Let \<open>handleLinkCommand\<close> pass both lookups and the update, with
  \<open>r\<close> the row found, and let the role step be entered (the interaction has a guild and
  \<open>DISCORD_ROLE_ID\<close> is a non-empty id) and fail: the fetch of the member throws, or
  the fetch of the role throws, or the role exists and \<open>member.roles.add\<close> throws.
  Then the reply is \<open>LinkError\<close>, which is not the reply \<open>LinkCompleted\<close> of a full
  success, and the update stays in the table: nothing is rolled back. \<open>LinkError\<close> is
  also the reply, with the world unchanged, of any run in which the first lookup throws.
\<close>

theorem link_role_grant_failed:
  assumes "db_connected cfg"
    and "\<not> select_discord_throws f" and "\<not> select_code_throws f" and "\<not> update_throws f"
    and "\<forall>q\<in>set (players w). discord_id q \<noteq> Some (user_id i)"
    and "select_by_link_code (link_code_collation cfg) (option_code i) (players w) = r # rest"
    and "in_guild i" and "DISCORD_ROLE_ID cfg = Some roleId" and "roleId \<noteq> []"
    and "members_fetch_throws f \<or> roles_fetch_throws f
         \<or> (roleId \<in> guild_roles w \<and> roles_add_throws f)"
    and "select_discord_throws f'"
  shows "fst (handleLinkCommand cfg f i w) = LinkError
       \<and> fst (handleLinkCommand cfg f i w) \<noteq> LinkCompleted (name r)
       \<and> players (snd (handleLinkCommand cfg f i w))
           = update_player (user_id i) (id_p r) (players w)
       \<and> handleLinkCommand cfg f' i w = (LinkError, w)"
proof -
  have partial: "fst (handleLinkCommand cfg f i w) = LinkError
      \<and> players (snd (handleLinkCommand cfg f i w))
          = update_player (user_id i) (id_p r) (players w)"
    unfolding link_found [OF assms(1-6)]
    using assms(7,8,9,10) by (auto simp: Let_def roles_add_def)
  have full: "handleLinkCommand cfg f' i w = (LinkError, w)"
    using assms(1,11) by (simp add: handleLinkCommand_def link_try_def)
  from partial full show ?thesis by simp
qed

theorem link_role_grant_failed_witness:
  "db_connected cfg0
   \<and> \<not> select_discord_throws (no_faults\<lparr>roles_add_throws := True\<rparr>)
   \<and> \<not> select_code_throws (no_faults\<lparr>roles_add_throws := True\<rparr>)
   \<and> \<not> update_throws (no_faults\<lparr>roles_add_throws := True\<rparr>)
   \<and> players (world_of [steve]) = [steve] \<and> discord_id steve = None
   \<and> select_by_link_code (link_code_collation cfg0) (option_code (request ''disc#1'' ''ABC123''))
        (players (world_of [steve])) = steve # []
   \<and> in_guild (request ''disc#1'' ''ABC123'') \<and> DISCORD_ROLE_ID cfg0 = Some ''role1''
   \<and> ''role1'' \<noteq> []
   \<and> ''role1'' \<in> guild_roles (world_of [steve])
   \<and> roles_add_throws (no_faults\<lparr>roles_add_throws := True\<rparr>)
   \<and> select_discord_throws (no_faults\<lparr>select_discord_throws := True\<rparr>)
   \<and> fst (handleLinkCommand cfg0 (no_faults\<lparr>roles_add_throws := True\<rparr>)
        (request ''disc#1'' ''ABC123'') (world_of [steve])) = LinkError
   \<and> players (snd (handleLinkCommand cfg0 (no_faults\<lparr>roles_add_throws := True\<rparr>)
        (request ''disc#1'' ''ABC123'') (world_of [steve]))) = [steve_linked ''disc#1'']
   \<and> handleLinkCommand cfg0 (no_faults\<lparr>select_discord_throws := True\<rparr>)
        (request ''disc#1'' ''ABC123'') (world_of [steve]) = (LinkError, world_of [steve])"
proof -
  let ?i = "request ''disc#1'' ''ABC123''"
  let ?w = "world_of [steve]"
  let ?f = "no_faults\<lparr>roles_add_throws := True\<rparr>"
  let ?f' = "no_faults\<lparr>select_discord_throws := True\<rparr>"
  have h1: "db_connected cfg0" by (simp add: cfg0_def)
  have h2: "\<not> select_discord_throws ?f" by (simp add: no_faults_def)
  have h3: "\<not> select_code_throws ?f" by (simp add: no_faults_def)
  have h4: "\<not> update_throws ?f" by (simp add: no_faults_def)
  have h5: "\<forall>q\<in>set (players ?w). discord_id q \<noteq> Some (user_id ?i)"
    by (simp add: world_of_def steve_def)
  have h6: "select_by_link_code (link_code_collation cfg0) (option_code ?i) (players ?w) = steve # []"
    by (simp add: select_by_link_code_def world_of_def steve_def request_def cfg0_def
        collation_binary_def)
  have h7: "in_guild ?i" by (simp add: request_def)
  have h8: "DISCORD_ROLE_ID cfg0 = Some ''role1''" by (simp add: cfg0_def)
  have h9: "''role1'' \<noteq> []" by simp
  have h10a: "''role1'' \<in> guild_roles ?w" by (simp add: world_of_def)
  have h10b: "roles_add_throws ?f" by simp
  have h10: "members_fetch_throws ?f \<or> roles_fetch_throws ?f
         \<or> (''role1'' \<in> guild_roles ?w \<and> roles_add_throws ?f)"
    using h10a h10b by blast
  have h11: "select_discord_throws ?f'" by simp
  have e: "update_player (user_id ?i) (id_p steve) (players ?w) = [steve_linked ''disc#1'']"
    by (simp add: world_of_def update_player_def steve_linked_def request_def)
  have c: "fst (handleLinkCommand cfg0 ?f ?i ?w) = LinkError
      \<and> players (snd (handleLinkCommand cfg0 ?f ?i ?w)) = [steve_linked ''disc#1'']
      \<and> handleLinkCommand cfg0 ?f' ?i ?w = (LinkError, ?w)"
    using link_role_grant_failed [OF h1 h2 h3 h4 h5 h6 h7 h8 h9 h10 h11] e by simp
  have g1: "players (world_of [steve]) = [steve]" by (simp add: world_of_def)
  have g2: "discord_id steve = None" by (simp add: steve_def)
  from h1 h2 h3 h4 g1 g2 h6 h7 h8 h9 h10a h10b h11 c show ?thesis by blast
qed


section \<open>Uniqueness of the link\<close>






















section \<open>Two invocations of /link\<close>






section \<open>Two invocations with one code\<close>











end
